theory Spec2Isabelle
  imports Complex_Main
begin

section \<open>The FT-DMRG driver (ftdmrg.py)\<close>

text \<open>
  The driver class \<open>FTDMRG\<close> sequences calls into the block2 library. The Python floats
  of the driver (integrals, tolerance, chemical potential, memory budget) are modelled by
  exact reals; Python integers that the library receives as unsigned values (site counts,
  spin, irreducible representations, bond dimensions) by naturals. A raised exception is
  a value of \<open>error\<close>; a method returns its outcome together with the instance
  as the exception leaves it, since attribute assignments made before a \<open>raise\<close> persist.
  Console output (\<open>print\<close>) and timing are not modelled.
\<close>

subsection \<open>Exceptions and outcomes\<close>

datatype error =
    AssertionError
  | IndexError
  | AttributeError
  | ValueError
  | FormatError
  | StorageError

datatype 'a outcome = Raised error | Returned 'a

subsection \<open>Arrays\<close>

text \<open>A two-dimensional numpy array is the list of its rows.\<close>

type_synonym matrix = "real list list"

text \<open>\<open>h[i, j]\<close> for non-negative \<open>i\<close>, \<open>j\<close>: numpy raises IndexError out of range.\<close>

definition mat_get :: "matrix \<Rightarrow> nat \<Rightarrow> nat \<Rightarrow> error + real" where
  "mat_get h i j =
     (if i < length h \<and> j < length (h ! i) then Inr (h ! i ! j) else Inl IndexError)"

text \<open>An array of any rank, as the two-electron integrals are; \<open>flatten\<close> is row-major.\<close>

datatype ndarray = Scalar real | Array "ndarray list"

fun flatten :: "ndarray \<Rightarrow> real list" where
  "flatten (Scalar x) = [x]"
| "flatten (Array xs) = concat (map flatten xs)"

text \<open>An argument that is either one array or a Python tuple of arrays.\<close>

datatype 'a py_arg = Single 'a | Tuple "'a list"

text \<open>\<open>a[np.abs(a) < tol] = 0.0\<close>\<close>

definition zero_below :: "real \<Rightarrow> real list \<Rightarrow> real list" where
  "zero_below tol xs = map (\<lambda>x. if \<bar>x\<bar> < tol then 0 else x) xs"

subsection \<open>Library objects\<close>

text \<open>
  The module fixes \<open>SpinLabel = SU2\<close> (line 21 of ftdmrg.py) and the constructor asserts
  \<open>su2\<close>: the driver is modelled in this spin-adapted configuration, in which the
  \<open>else\<close> branches for \<open>SZ\<close> (lines 29 to 31, 92 to 109, 248 to 252, 268) never run.
\<close>

text \<open>
  Modelled from the spec: the library's quantum-number class (\<open>SU2\<close>/\<open>SZ\<close> of block2, not
  among the sources) is "a (particle-number, spin, symmetry-irrep) triple identifying a
  symmetry sector"; \<open>SpinLabel(0)\<close> is the vacuum \<open>(0,0,0)\<close>.
\<close>

record qnum =
  q_n :: nat
  q_twos :: nat
  q_pg :: nat

definition new_qnum :: "nat \<Rightarrow> nat \<Rightarrow> nat \<Rightarrow> qnum" where
  "new_qnum n tw pg = \<lparr>q_n = n, q_twos = tw, q_pg = pg\<rparr>"

definition vacuum_qnum :: qnum where
  "vacuum_qnum = new_qnum 0 0 0"

text \<open>
  Modelled from the spec: the library's integral store (\<open>FCIDUMP\<close> of block2, not among
  the sources) "holds one- and two-electron integrals, core energy, point-group/orbital-symmetry
  labels, and electron count/spin/target-symmetry quantum numbers". \<open>FCIDUMP()\<close> makes
  an unpopulated store; \<open>initialize_su2\<close> and \<open>read\<close> populate it. The spin-restricted
  store holds one packed one-electron array and one two-electron array.
\<close>

record integrals =
  i_n_sites :: nat
  i_n_elec :: nat
  i_twos :: nat
  i_isym :: nat
  i_e_core :: real
  i_h1e :: "real list"
  i_g2e :: "real list"

text \<open>A store read from an integral file also carries the file's orbital symmetry labels.\<close>

record file_integrals = integrals +
  i_orb_sym :: "nat list"

datatype FCIDUMP = Unpopulated | Populated integrals | Loaded file_integrals

definition initialize_su2 ::
  "nat \<Rightarrow> nat \<Rightarrow> nat \<Rightarrow> nat \<Rightarrow> real \<Rightarrow> real list \<Rightarrow> real list \<Rightarrow> FCIDUMP" where
  "initialize_su2 n n_elec tw isym e_core mh1e mg2e =
     Populated \<lparr>i_n_sites = n, i_n_elec = n_elec, i_twos = tw, i_isym = isym,
       i_e_core = e_core, i_h1e = mh1e, i_g2e = mg2e\<rparr>"

datatype SeqTypes = SeqNone | Simple | Auto

text \<open>
  Modelled from the spec: the library's Hamiltonian (\<open>HamiltonianQC\<close> of block2, not among
  the sources) holds "vacuum and target quantum numbers, ... orbital symmetry assignment,
  chemical potential"; its constructor stores its arguments, with no shift (\<open>mu = 0\<close>)
  and the library's default sequencing mode.
\<close>

record hamiltonian =
  vaccum :: qnum
  target :: qnum
  h_n_sites :: nat
  h_orb_sym :: "nat list"
  h_fcidump :: FCIDUMP
  mu :: real
  seq_mode :: SeqTypes

definition HamiltonianQC :: "qnum \<Rightarrow> qnum \<Rightarrow> nat \<Rightarrow> nat list \<Rightarrow> FCIDUMP \<Rightarrow> hamiltonian" where
  "HamiltonianQC vac tgt n os fd =
     \<lparr>vaccum = vac, target = tgt, h_n_sites = n, h_orb_sym = os, h_fcidump = fd,
      mu = 0, seq_mode = SeqNone\<rparr>"

subsection \<open>The driver instance\<close>

text \<open>
  The attributes of an \<open>FTDMRG\<close> object. \<open>fcidump\<close> and \<open>hamil\<close> are \<open>None\<close> after
  construction; the other attributes do not exist until a method assigns them (reading
  them before raises AttributeError), which \<open>None\<close> stands for here.
\<close>

record ftdmrg =
  fcidump :: "FCIDUMP option"
  hamil :: "hamiltonian option"
  verbose :: int
  orb_sym :: "nat list option"
  n_physical_sites :: "nat option"
  n_sites :: "nat option"
  bond_dim :: "nat option"

subsection \<open>In-memory initialization: packing the one-electron matrix\<close>

text \<open>
  Lines 79 to 84: the loops over \<open>i\<close> and \<open>j \<le> i\<close>, with the loop state \<open>(k, mh1e)\<close>.
  \<open>k\<close> stays below the length of \<open>mh1e\<close>, so the store \<open>mh1e[k] = ...\<close> is in range.
\<close>

fun pack_row :: "matrix \<Rightarrow> real \<Rightarrow> nat \<Rightarrow> nat list \<Rightarrow> nat \<times> real list \<Rightarrow> error + nat \<times> real list" where
  "pack_row h tol i [] s = Inr s"
| "pack_row h tol i (j # js) s =
     (case mat_get h i j of
        Inl e \<Rightarrow> Inl e
      | Inr a \<Rightarrow>
          (case mat_get h j i of
             Inl e \<Rightarrow> Inl e
           | Inr b \<Rightarrow>
               if \<bar>a - b\<bar> < tol
               then pack_row h tol i js (Suc (fst s), (snd s)[fst s := a])
               else Inl AssertionError))"

fun pack_rows :: "matrix \<Rightarrow> real \<Rightarrow> nat list \<Rightarrow> nat \<times> real list \<Rightarrow> error + nat \<times> real list" where
  "pack_rows h tol [] s = Inr s"
| "pack_rows h tol (i # is) s =
     (case pack_row h tol i [0..<i + 1] s of
        Inl e \<Rightarrow> Inl e
      | Inr s' \<Rightarrow> pack_rows h tol is s')"

definition pack_h1e :: "nat \<Rightarrow> matrix \<Rightarrow> real \<Rightarrow> error + real list" where
  "pack_h1e n h tol =
     (case pack_rows h tol [0..<n] (0, replicate (n * (n + 1) div 2) 0) of
        Inl e \<Rightarrow> Inl e
      | Inr s \<Rightarrow> Inr (snd s))"

text \<open>
  Lines 77 to 109: the integral store's contents from the caller's arrays. With
  \<open>SpinLabel = SU2\<close> the tuple branch stops at its first assertion,
  \<open>assert SpinLabel == SZ\<close> (line 91). A tuple for \<open>g2e\<close> has no \<open>flatten\<close>.
\<close>

definition build_fcidump ::
  "nat \<Rightarrow> nat \<Rightarrow> nat \<Rightarrow> nat \<Rightarrow> real \<Rightarrow> matrix py_arg \<Rightarrow> ndarray py_arg \<Rightarrow> real \<Rightarrow> error + FCIDUMP" where
  "build_fcidump n n_elec tw isym e_core h1e g2e tol =
     (case h1e of
        Single h \<Rightarrow>
          (case pack_h1e n h tol of
             Inl e \<Rightarrow> Inl e
           | Inr mh1e \<Rightarrow>
               (case g2e of
                  Tuple _ \<Rightarrow> Inl AttributeError
                | Single g \<Rightarrow>
                    Inr (initialize_su2 n n_elec tw isym e_core
                          (zero_below tol mh1e) (zero_below tol (flatten g)))))
      | Tuple _ \<Rightarrow> Inl AssertionError)"

text \<open>
  \<open>init_hamiltonian\<close> (lines 73 to 121). \<open>swap_d2h\<close> is the library's
  \<open>PointGroup.swap_d2h\<close>, a parameter here.
\<close>

definition supported_pg :: "string \<Rightarrow> bool" where
  "supported_pg pg = (pg \<in> set [''d2h'', ''c1''])"

definition init_hamiltonian ::
  "(nat \<Rightarrow> nat) \<Rightarrow> string \<Rightarrow> nat \<Rightarrow> nat \<Rightarrow> nat \<Rightarrow> nat list \<Rightarrow> real \<Rightarrow> matrix py_arg \<Rightarrow>
   ndarray py_arg \<Rightarrow> real \<Rightarrow> ftdmrg \<Rightarrow> unit outcome \<times> ftdmrg" where
  "init_hamiltonian swap_d2h pg n tw isym osym e_core h1e g2e tol st =
     (if fcidump st \<noteq> None then (Raised AssertionError, st)
      else
        let st1 = st\<lparr>fcidump := Some Unpopulated\<rparr>;
            n_elec = n * 2
        in case build_fcidump n n_elec tw isym e_core h1e g2e tol of
             Inl e \<Rightarrow> (Raised e, st1)
           | Inr fd \<Rightarrow>
               let st2 = st1\<lparr>fcidump := Some fd\<rparr>;
                   st3 = st2\<lparr>orb_sym := Some (map swap_d2h osym)\<rparr>;
                   vac = vacuum_qnum;
                   tgt = new_qnum n_elec tw (swap_d2h isym);
                   st4 = st3\<lparr>n_physical_sites := Some n, n_sites := Some (n * 2)\<rparr>;
                   st5 = st4\<lparr>hamil := Some ((HamiltonianQC vac tgt n (map swap_d2h osym) fd)
                                           \<lparr>seq_mode := Simple\<rparr>)\<rparr>
               in if supported_pg pg then (Returned (), st5) else (Raised AssertionError, st5))"

text \<open>
  \<open>init_hamiltonian_fcidump\<close> (lines 54 to 71). \<open>read\<close> is the library's
  \<open>FCIDUMP.read\<close>, a parameter here: the parsed contents of the named file, or nothing
  when the file is malformed (the spec's FormatError).
\<close>

definition init_hamiltonian_fcidump ::
  "(nat \<Rightarrow> nat) \<Rightarrow> (string \<Rightarrow> file_integrals option) \<Rightarrow> string \<Rightarrow> string \<Rightarrow> ftdmrg \<Rightarrow>
   unit outcome \<times> ftdmrg" where
  "init_hamiltonian_fcidump swap_d2h read pg filename st =
     (if fcidump st \<noteq> None then (Raised AssertionError, st)
      else
        let st1 = st\<lparr>fcidump := Some Unpopulated\<rparr>
        in case read filename of
             None \<Rightarrow> (Raised FormatError, st1)
           | Some f \<Rightarrow>
               let st2 = st1\<lparr>fcidump := Some (Loaded f)\<rparr>;
                   st3 = st2\<lparr>orb_sym := Some (map swap_d2h (i_orb_sym f))\<rparr>;
                   n_elec = i_n_sites f * 2;
                   vac = vacuum_qnum;
                   tgt = new_qnum n_elec (i_twos f) (swap_d2h (i_isym f));
                   st4 = st3\<lparr>n_physical_sites := Some (i_n_sites f),
                              n_sites := Some (i_n_sites f * 2)\<rparr>;
                   st5 = st4\<lparr>hamil := Some ((HamiltonianQC vac tgt (i_n_sites f)
                                              (map swap_d2h (i_orb_sym f)) (Loaded f))
                                           \<lparr>seq_mode := Simple\<rparr>)\<rparr>
               in if supported_pg pg then (Returned (), st5) else (Raised AssertionError, st5))"

subsection \<open>Process-wide state\<close>

text \<open>
  Modelled from the spec: the library's \<open>init_memory\<close> and \<open>release_memory\<close> (not among
  the sources) manage "a block of process-wide scratch memory sized as a fixed fraction
  (10% index / 90% data) of a configured total budget": \<open>init_memory\<close> allocates the pool
  with the sizes it is given, \<open>release_memory\<close> releases it.
\<close>

record memory_pool =
  isize :: int
  dsize :: int
  save_dir :: string

text \<open>
  Modelled from the spec: the scratch directory holds "tagged, named blobs" that "consumers
  locate purely by tag string plus fixed naming convention". The three kinds are what
  \<open>MPSInfo.save_mutable\<close>, \<open>MPS.save_mutable\<close> and \<open>MPS.save_data\<close> write.
\<close>

datatype kind = InfoMutable | MPSMutable | MPSData

type_synonym 'b scratch = "kind \<times> string \<Rightarrow> 'b option"

text \<open>
  The state outside the instance: the library's random generator (of an unspecified type
  \<open>'r\<close>), the memory pool, the thread count and the scratch directory.
\<close>

record ('b, 'r) world =
  rng :: 'r
  pool :: "memory_pool option"
  mkl_num_threads :: int
  disk :: "'b scratch"

text \<open>Python's \<open>int(x)\<close> on a float truncates towards zero.\<close>

definition py_int :: "real \<Rightarrow> int" where
  "py_int x = (if 0 \<le> x then \<lfloor>x\<rfloor> else \<lceil>x\<rceil>)"

text \<open>
  \<open>__init__\<close> (lines 43 to 52). \<open>rand_seed\<close> is the library's \<open>Random.rand_seed\<close>, a
  parameter here: what it makes of the generator, given the seed argument.
\<close>

definition FTDMRG_init ::
  "(nat \<Rightarrow> 'r \<Rightarrow> 'r) \<Rightarrow> bool \<Rightarrow> string \<Rightarrow> real \<Rightarrow> int \<Rightarrow> int \<Rightarrow> ('b, 'r) world \<Rightarrow>
   ftdmrg outcome \<times> ('b, 'r) world" where
  "FTDMRG_init rand_seed su2 scratch memory omp_threads verb w =
     (if \<not> su2 then (Raised AssertionError, w)
      else
        let w1 = w\<lparr>rng := rand_seed 0 (rng w)\<rparr>;
            w2 = w1\<lparr>pool := Some \<lparr>isize = py_int (memory * (1 / 10)),
                                  dsize = py_int (memory * (9 / 10)),
                                  save_dir = scratch\<rparr>\<rparr>;
            w3 = w2\<lparr>mkl_num_threads := omp_threads\<rparr>
        in (Returned \<lparr>fcidump = None, hamil = None, verbose = verb, orb_sym = None,
                      n_physical_sites = None, n_sites = None, bond_dim = None\<rparr>, w3))"

text \<open>
  \<open>__del__\<close> (lines 270 to 275): the Hamiltonian and the integral store, when present,
  hand their memory back to the pool, and the pool is released. The instance is gone
  afterwards, so only the world is returned.
\<close>

definition FTDMRG_del :: "ftdmrg \<Rightarrow> ('b, 'r) world \<Rightarrow> ('b, 'r) world" where
  "FTDMRG_del st w = w\<lparr>pool := None\<rparr>"

subsection \<open>The initial state\<close>

text \<open>The in-memory MPS: the bond dimensions of its \<open>MPSInfo\<close>, its tensors, its metadata.\<close>

record 'b mps =
  info_dims :: 'b
  tensors :: 'b
  data :: 'b

text \<open>
  \<open>generate_initial_mps\<close> (lines 123 to 160). \<open>thermal_info\<close> stands for the library's
  \<open>AncillaMPSInfo(...)\<close> with \<open>set_thermal_limit\<close>, \<open>thermal_mps\<close> for
  \<open>MPS(n_sites, center, dot)\<close> with \<open>initialize\<close>, \<open>fill_thermal_limit\<close> and
  \<open>canonicalize\<close>; both are parameters. The argument \<open>bond_dim\<close> is unused, as in the source.
\<close>

definition generate_initial_mps ::
  "(hamiltonian \<Rightarrow> nat \<Rightarrow> 'b) \<Rightarrow> (nat \<Rightarrow> int \<Rightarrow> nat \<Rightarrow> 'b \<Rightarrow> 'b \<times> 'b) \<Rightarrow> nat \<Rightarrow> ftdmrg \<Rightarrow>
   ('b, 'r) world \<Rightarrow> unit outcome \<times> ftdmrg \<times> ('b, 'r) world" where
  "generate_initial_mps thermal_info thermal_mps bdim st w =
     (case hamil st of
        None \<Rightarrow> (Raised AssertionError, st, w)
      | Some h \<Rightarrow>
          (case n_physical_sites st of
             None \<Rightarrow> (Raised AttributeError, st, w)
           | Some np \<Rightarrow>
               let dims = thermal_info h np;
                   d1 = (disk w)((InfoMutable, ''INIT'') \<mapsto> dims)
               in case n_sites st of
                    None \<Rightarrow> (Raised AttributeError, st, w\<lparr>disk := d1\<rparr>)
                  | Some ns \<Rightarrow>
                      let tm = thermal_mps ns (int ns - 2) 2 dims;
                          d2 = d1((MPSMutable, ''INIT'') \<mapsto> fst tm);
                          d3 = d2((MPSData, ''INIT'') \<mapsto> snd tm)
                      in (Returned (), st, w\<lparr>disk := d3\<rparr>)))"

subsection \<open>Imaginary-time evolution\<close>

datatype TETypes = TangentSpace | RK4

text \<open>
  Lines 170 to 180: \<open>mps_info.load_mutable()\<close>, \<open>mps.load_data()\<close> and
  \<open>mps.load_mutable()\<close> under the tag of \<open>mps_info\<close>. A blob that is missing is the
  library's failure, StorageError here.
\<close>

definition load_mps :: "string \<Rightarrow> 'b scratch \<Rightarrow> error + 'b mps" where
  "load_mps tag d =
     (case d (InfoMutable, tag) of
        None \<Rightarrow> Inl StorageError
      | Some di \<Rightarrow>
          (case d (MPSData, tag) of
             None \<Rightarrow> Inl StorageError
           | Some da \<Rightarrow>
               (case d (MPSMutable, tag) of
                  None \<Rightarrow> Inl StorageError
                | Some t \<Rightarrow> Inr \<lparr>info_dims = di, tensors = t, data = da\<rparr>)))"

text \<open>
  Lines 174 to 188: the tag to load from, the loads, and for a fresh evolution the
  re-tagging with both \<open>save_mutable\<close> calls. The result is the tag of \<open>mps_info\<close>, the
  MPS in memory and the scratch directory, as the evolution finds them.
\<close>

definition prepare_mps :: "bool \<Rightarrow> 'b scratch \<Rightarrow> error + string \<times> 'b mps \<times> 'b scratch" where
  "prepare_mps cont d =
     (let tag = (if \<not> cont then ''INIT'' else ''FINAL'')
      in case load_mps tag d of
           Inl e \<Rightarrow> Inl e
         | Inr m \<Rightarrow>
             if \<not> cont
             then Inr (''FINAL'', m,
                       d((InfoMutable, ''FINAL'') \<mapsto> info_dims m, (MPSMutable, ''FINAL'') \<mapsto> tensors m))
             else Inr (tag, m, d))"

text \<open>
  \<open>imaginary_time_evolution\<close> (lines 162 to 214). \<open>te_solve\<close> stands for lines 190 to
  205: the MPO of the Hamiltonian, the moving environment and \<open>ImaginaryTE(...).solve\<close>
  on the MPS under its tag; it is a parameter, free to read and write the scratch directory.
\<close>

definition imaginary_time_evolution ::
  "(hamiltonian \<Rightarrow> string \<Rightarrow> 'b mps \<Rightarrow> nat list \<Rightarrow> TETypes \<Rightarrow> nat \<Rightarrow> nat \<Rightarrow> real \<Rightarrow> 'b scratch \<Rightarrow>
      'b mps \<times> 'b scratch) \<Rightarrow>
   nat \<Rightarrow> real \<Rightarrow> real \<Rightarrow> nat list \<Rightarrow> TETypes \<Rightarrow> nat \<Rightarrow> bool \<Rightarrow> ftdmrg \<Rightarrow> ('b, 'r) world \<Rightarrow>
   unit outcome \<times> ftdmrg \<times> ('b, 'r) world" where
  "imaginary_time_evolution te_solve n_steps beta_step mu' bond_dims te_method n_sub_sweeps cont st w =
     (case hamil st of
        None \<Rightarrow> (Raised AttributeError, st, w)
      | Some h \<Rightarrow>
          let h1 = h\<lparr>mu := mu'\<rparr>;
              st1 = st\<lparr>hamil := Some h1\<rparr>
          in case n_physical_sites st1 of
               None \<Rightarrow> (Raised AttributeError, st1, w)
             | Some np \<Rightarrow>
                 (case prepare_mps cont (disk w) of
                    Inl e \<Rightarrow> (Raised e, st1, w)
                  | Inr (tag, m, d1) \<Rightarrow>
                      let r = te_solve h1 tag m bond_dims te_method n_sub_sweeps n_steps beta_step d1
                      in if bond_dims = [] then (Raised IndexError, st1, w\<lparr>disk := snd r\<rparr>)
                         else (Returned (),
                               st1\<lparr>bond_dim := Some (last bond_dims)\<rparr>,
                               w\<lparr>disk := (snd r)((MPSData, tag) \<mapsto> data (fst r))\<rparr>)))"

subsection \<open>The one-particle density matrix\<close>

text \<open>
  \<open>a[ridx]\<close> along the first axis, with an integer index array: numpy counts a negative
  index from the end and raises IndexError out of range.
\<close>

definition fancy_index :: "'a list \<Rightarrow> int list \<Rightarrow> error + 'a list" where
  "fancy_index xs ridx =
     (let n = int (length xs)
      in if list_all (\<lambda>r. - n \<le> r \<and> r < n) ridx
         then Inr (map (\<lambda>r. xs ! nat (if r < 0 then r + n else r)) ridx)
         else Inl IndexError)"

definition ncols :: "matrix \<Rightarrow> nat" where
  "ncols a = (case a of [] \<Rightarrow> 0 | r # _ \<Rightarrow> length r)"

text \<open>\<open>x[:, ridx]\<close>: the same along the second axis, whose length is \<open>m\<close>.\<close>

definition fancy_cols :: "nat \<Rightarrow> matrix \<Rightarrow> int list \<Rightarrow> error + matrix" where
  "fancy_cols m x ridx =
     (if list_all (\<lambda>r. - int m \<le> r \<and> r < int m) ridx
      then Inr (map (\<lambda>row. map (\<lambda>r. row ! nat (if r < 0 then r + int m else r)) ridx) x)
      else Inl IndexError)"

text \<open>
  \<open>dm[:, :] = x\<close>: \<open>x\<close> is broadcast to the shape of \<open>dm\<close> (an axis of length one is
  repeated); any other mismatch of shapes is a ValueError.
\<close>

definition assign_all :: "matrix \<Rightarrow> matrix \<Rightarrow> error + matrix" where
  "assign_all dm x =
     (let n = length dm; m = ncols dm; p = length x; q = ncols x
      in if (p = n \<or> p = 1) \<and> (q = m \<or> q = 1)
         then Inr (map (\<lambda>i. map (\<lambda>j. x ! (if p = 1 then 0 else i) ! (if q = 1 then 0 else j))
                                [0..<m]) [0..<n])
         else Inl ValueError)"

text \<open>Line 255: \<open>dm[:, :] = dm[ridx, :][:, ridx]\<close>. Both indexings make copies.\<close>

definition reorder :: "int list \<Rightarrow> matrix \<Rightarrow> error + matrix" where
  "reorder ridx dm =
     (case fancy_index dm ridx of
        Inl e \<Rightarrow> Inl e
      | Inr rows \<Rightarrow>
          (case fancy_cols (ncols dm) rows ridx of
             Inl e \<Rightarrow> Inl e
           | Inr x \<Rightarrow> assign_all dm x))"

text \<open>
  \<open>get_one_pdm\<close> (lines 216 to 268). \<open>expect_1pdm\<close> stands for lines 234 to 246: the
  density-matrix MPO of the Hamiltonian, the moving environment, \<open>Expect(...).solve\<close>
  and \<open>get_1pdm_spatial\<close>; it is a parameter, free to read and write the scratch directory.
  The read of \<open>self.bond_dim\<close> (line 241) is placed before it: when the attribute is
  missing, what the library wrote before that line is not modelled.
\<close>

definition get_one_pdm ::
  "(hamiltonian \<Rightarrow> 'b \<Rightarrow> nat \<Rightarrow> nat \<Rightarrow> 'b scratch \<Rightarrow> matrix \<times> 'b scratch) \<Rightarrow> int list option \<Rightarrow>
   ftdmrg \<Rightarrow> ('b, 'r) world \<Rightarrow> matrix list outcome \<times> ftdmrg \<times> ('b, 'r) world" where
  "get_one_pdm expect_1pdm ridx st w =
     (case hamil st of
        None \<Rightarrow> (Raised AttributeError, st, w)
      | Some h \<Rightarrow>
          let h0 = h\<lparr>mu := 0\<rparr>;
              st1 = st\<lparr>hamil := Some h0\<rparr>
          in case n_physical_sites st1 of
               None \<Rightarrow> (Raised AttributeError, st1, w)
             | Some np \<Rightarrow>
                 (case disk w (MPSData, ''FINAL'') of
                    None \<Rightarrow> (Raised StorageError, st1, w)
                  | Some md \<Rightarrow>
                      (case bond_dim st1 of
                         None \<Rightarrow> (Raised AttributeError, st1, w)
                       | Some bd \<Rightarrow>
                           let r = expect_1pdm h0 md bd np (disk w);
                               w1 = w\<lparr>disk := snd r\<rparr>
                           in case (case ridx of None \<Rightarrow> Inr (fst r) | Some p \<Rightarrow> reorder p (fst r)) of
                                Inl e \<Rightarrow> (Raised e, st1, w1)
                              | Inr dm \<Rightarrow>
                                  (Returned [map (map (\<lambda>x. x / 2)) dm, map (map (\<lambda>x. x / 2)) dm],
                                   st1, w1))))"

subsection \<open>Notions the properties are stated with\<close>

text \<open>An \<open>n\<close> by \<open>n\<close> array.\<close>

definition square :: "nat \<Rightarrow> matrix \<Rightarrow> bool" where
  "square n h = (length h = n \<and> list_all (\<lambda>r. length r = n) h)"

text \<open>The lower triangle of \<open>h\<close>, row after row: the rows \<open>i\<close> of \<open>rows\<close>, each up to its diagonal.\<close>

definition tri :: "matrix \<Rightarrow> nat list \<Rightarrow> real list" where
  "tri h rows = concat (map (\<lambda>i. map (\<lambda>j. h ! i ! j) [0..<i + 1]) rows)"

text \<open>Row \<open>i\<close> passes the assertion of line 82 at every \<open>j \<le> i\<close>; all rows below \<open>n\<close> do.\<close>

definition sym_row :: "matrix \<Rightarrow> real \<Rightarrow> nat \<Rightarrow> bool" where
  "sym_row h tol i = list_all (\<lambda>j. \<bar>h ! i ! j - h ! j ! i\<bar> < tol) [0..<i + 1]"

definition symmetric_within :: "nat \<Rightarrow> matrix \<Rightarrow> real \<Rightarrow> bool" where
  "symmetric_within n h tol = list_all (sym_row h tol) [0..<n]"

text \<open>An index array that is a permutation of \<open>0, ..., n - 1\<close>, and its inverse permutation.\<close>

definition is_perm :: "nat \<Rightarrow> int list \<Rightarrow> bool" where
  "is_perm n ridx = (length ridx = n \<and> distinct ridx \<and> list_all (\<lambda>r. 0 \<le> r \<and> r < int n) ridx)"

definition index_of :: "int list \<Rightarrow> int \<Rightarrow> nat" where
  "index_of xs x = length (takeWhile (\<lambda>y. y \<noteq> x) xs)"

definition inverse_perm :: "int list \<Rightarrow> int list" where
  "inverse_perm ridx = map (\<lambda>i. int (index_of ridx (int i))) [0..<length ridx]"

subsection \<open>Sample inputs\<close>

text \<open>
  Concrete inputs on which the theorems below are exercised: an instance as the
  constructor leaves it, a symmetric and an asymmetric two-orbital matrix, a two-electron
  array, an integral file, and stand-ins for the library's solver and expectation
  routines over blobs that are plain numbers.
\<close>

definition sample_instance :: ftdmrg where
  "sample_instance = \<lparr>fcidump = None, hamil = None, verbose = 2, orb_sym = None,
                       n_physical_sites = None, n_sites = None, bond_dim = None\<rparr>"

definition sample_h1e :: matrix where
  "sample_h1e = [[1, 2], [2, 1 / 100]]"

definition skewed_h1e :: matrix where
  "skewed_h1e = [[1, 2], [5, 3]]"

definition sample_g2e :: ndarray where
  "sample_g2e = Array [Array [Scalar 1, Scalar (1 / 100)], Array [Scalar (- 1 / 20), Scalar 3]]"

definition sample_file :: file_integrals where
  "sample_file = \<lparr>i_n_sites = 2, i_n_elec = 2, i_twos = 0, i_isym = 1, i_e_core = 0,
                   i_h1e = [1, 2, 3], i_g2e = [1, 0, 0, 3], i_orb_sym = [1, 1]\<rparr>"

definition sample_read :: "string \<Rightarrow> file_integrals option" where
  "sample_read name = (if name = ''FCIDUMP'' then Some sample_file else None)"

definition sample_ready :: ftdmrg where
  "sample_ready =
     snd (init_hamiltonian id ''d2h'' 2 0 1 [1, 1] 0 (Single sample_h1e) (Single sample_g2e)
            (1 / 10) sample_instance)"

definition sample_disk :: "nat scratch" where
  "sample_disk =
     (\<lambda>k. None)((InfoMutable, ''INIT'') \<mapsto> 10, (MPSData, ''INIT'') \<mapsto> 11,
                 (MPSMutable, ''INIT'') \<mapsto> 12, (InfoMutable, ''FINAL'') \<mapsto> 20,
                 (MPSData, ''FINAL'') \<mapsto> 21, (MPSMutable, ''FINAL'') \<mapsto> 22)"

definition sample_world :: "(nat, nat) world" where
  "sample_world = \<lparr>rng = 7, pool = None, mkl_num_threads = 1, disk = sample_disk\<rparr>"

definition sample_solve ::
  "hamiltonian \<Rightarrow> string \<Rightarrow> nat mps \<Rightarrow> nat list \<Rightarrow> TETypes \<Rightarrow> nat \<Rightarrow> nat \<Rightarrow> real \<Rightarrow> nat scratch \<Rightarrow>
   nat mps \<times> nat scratch" where
  "sample_solve h tag m bond_dims te_method n_sub_sweeps n_steps beta_step d =
     (m\<lparr>tensors := tensors m + 100, data := data m + 100\<rparr>,
      d((MPSMutable, tag) \<mapsto> tensors m + 100))"

definition sample_expect ::
  "hamiltonian \<Rightarrow> nat \<Rightarrow> nat \<Rightarrow> nat \<Rightarrow> nat scratch \<Rightarrow> matrix \<times> nat scratch" where
  "sample_expect h md bd np d = ([[1 + mu h, 2], [3, 4 - mu h]], d)"

definition sample_dm :: matrix where
  "sample_dm = [[1, 2, 3], [4, 5, 6], [7, 8, 9]]"

text \<open>The target quantum number as the spec words it: \<open>(n_elec, twos, isym)\<close>.\<close>

definition spec_target :: "nat \<Rightarrow> nat \<Rightarrow> nat \<Rightarrow> qnum" where
  "spec_target n_elec tw isym = \<lparr>q_n = n_elec, q_twos = tw, q_pg = isym\<rparr>"

definition sample_hamil :: hamiltonian where
  "sample_hamil =
     \<lparr>vaccum = \<lparr>q_n = 0, q_twos = 0, q_pg = 0\<rparr>, target = \<lparr>q_n = 4, q_twos = 0, q_pg = 1\<rparr>,
      h_n_sites = 2, h_orb_sym = [1, 1],
      h_fcidump = Populated \<lparr>i_n_sites = 2, i_n_elec = 4, i_twos = 0, i_isym = 1, i_e_core = 0,
                              i_h1e = [1, 2, 0], i_g2e = [1, 0, 0, 3]\<rparr>,
      mu = 0, seq_mode = Simple\<rparr>"

definition sample_seed :: "nat \<Rightarrow> nat \<Rightarrow> nat" where
  "sample_seed s r = s + r"

text \<open>A stand-in for \<open>PointGroup.swap_d2h\<close>, a table on the labels up to eight.\<close>

definition sample_swap :: "nat \<Rightarrow> nat" where
  "sample_swap i = (if i < 9 then [8, 0, 7, 6, 1, 5, 2, 3, 4] ! i else i)"

text \<open>The sample instance and world after one evolution step with chemical potential \<open>- 1\<close>.\<close>

definition sample_evolved :: ftdmrg where
  "sample_evolved =
     fst (snd (imaginary_time_evolution sample_solve 1 (1 / 10) (- 1) [1000] RK4 6 False
                 sample_ready sample_world))"

definition sample_evolved_world :: "(nat, nat) world" where
  "sample_evolved_world =
     snd (snd (imaginary_time_evolution sample_solve 1 (1 / 10) (- 1) [1000] RK4 6 False
                 sample_ready sample_world))"

text \<open>
  Stand-ins over blobs that are reals: a solver whose evolved state depends on the
  chemical potential of the Hamiltonian it is given, as the propagator of the shifted
  Hamiltonian does, and an expectation routine that reads the state only.
\<close>

definition shifted_solve ::
  "hamiltonian \<Rightarrow> string \<Rightarrow> real mps \<Rightarrow> nat list \<Rightarrow> TETypes \<Rightarrow> nat \<Rightarrow> nat \<Rightarrow> real \<Rightarrow> real scratch \<Rightarrow>
   real mps \<times> real scratch" where
  "shifted_solve h tag m bond_dims te_method n_sub_sweeps n_steps beta_step d =
     (m\<lparr>data := data m - real n_steps * beta_step * mu h\<rparr>, d)"

definition state_expect ::
  "hamiltonian \<Rightarrow> real \<Rightarrow> nat \<Rightarrow> nat \<Rightarrow> real scratch \<Rightarrow> matrix \<times> real scratch" where
  "state_expect h md bd np d = ([[md]], d)"

definition thermal_world :: "(real, nat) world" where
  "thermal_world =
     \<lparr>rng = 7, pool = None, mkl_num_threads = 1,
      disk = (\<lambda>k. None)((InfoMutable, ''INIT'') \<mapsto> 1, (MPSData, ''INIT'') \<mapsto> 1,
                         (MPSMutable, ''INIT'') \<mapsto> 1)\<rparr>"

section \<open>Properties\<close>

subsection \<open>The packing loops\<close>

lemma mat_get_square: "square n h \<Longrightarrow> i < n \<Longrightarrow> j < n \<Longrightarrow> mat_get h i j = Inr (h ! i ! j)"
  by (simp add: square_def mat_get_def list_all_length)

lemma pack_row_ok:
  assumes "square n h" "i < n"
  shows "list_all (\<lambda>j. j < n \<and> \<bar>h ! i ! j - h ! j ! i\<bar> < tol) js \<Longrightarrow> k + length js \<le> length m \<Longrightarrow>
    pack_row h tol i js (k, m) =
      Inr (k + length js, take k m @ map (\<lambda>j. h ! i ! j) js @ drop (k + length js) m)"
proof (induction js arbitrary: k m)
  case Nil
  then show ?case by simp
next
  case (Cons j js)
  have "k < length m" using Cons.prems by simp
  then have t: "take (Suc k) (m[k := h ! i ! j]) = take k m @ [h ! i ! j]"
    by (simp add: take_Suc_conv_app_nth)
  show ?case using Cons assms t
    by (simp add: mat_get_square)
qed

lemma pack_row_fail:
  assumes "square n h" "i < n"
  shows "list_all (\<lambda>j. j < n) js \<Longrightarrow> \<not> list_all (\<lambda>j. \<bar>h ! i ! j - h ! j ! i\<bar> < tol) js \<Longrightarrow>
    pack_row h tol i js s = Inl AssertionError"
  using assms by (induction js arbitrary: s) (auto simp: mat_get_square)

lemma pack_row_succeeds:
  assumes "square n h" "i < n"
  shows "list_all (\<lambda>j. j < n \<and> \<bar>h ! i ! j - h ! j ! i\<bar> < tol) js \<Longrightarrow>
    \<exists>s'. pack_row h tol i js s = Inr s'"
  using assms by (induction js arbitrary: s) (auto simp: mat_get_square)

lemma sym_row_iff: "sym_row h tol i \<longleftrightarrow> (\<forall>j\<le>i. \<bar>h ! i ! j - h ! j ! i\<bar> < tol)"
  unfolding sym_row_def list_all_iff by (auto simp del: upt_Suc simp: less_Suc_eq_le)

lemma tri_Cons: "tri h (i # rows) = map (\<lambda>j. h ! i ! j) [0..<i + 1] @ tri h rows"
  by (simp add: tri_def)

lemma tri_snoc: "tri h [0..<Suc n] = tri h [0..<n] @ map (\<lambda>j. h ! n ! j) [0..<n + 1]"
  by (simp add: tri_def)

lemma length_tri: "length (tri h [0..<n]) = n * (n + 1) div 2"
proof (induction n)
  case 0
  show ?case by (simp add: tri_def)
next
  case (Suc n)
  have "n * (n + 1) div 2 + (n + 1) = Suc n * (Suc n + 1) div 2" by simp
  with Suc show ?case unfolding tri_snoc by simp
qed

lemma tri_nth: "i < n \<Longrightarrow> j \<le> i \<Longrightarrow> tri h [0..<n] ! (i * (i + 1) div 2 + j) = h ! i ! j"
proof (induction n)
  case 0
  then show ?case by simp
next
  case (Suc n)
  show ?case
  proof (cases "i < n")
    case True
    have "i * (i + 1) div 2 + j < Suc i * (Suc i + 1) div 2" using Suc.prems by simp
    also have "\<dots> \<le> n * (n + 1) div 2"
      using True by (intro div_le_mono mult_le_mono) auto
    finally have "i * (i + 1) div 2 + j < length (tri h [0..<n])" by (simp add: length_tri)
    then show ?thesis using Suc True unfolding tri_snoc by (simp add: nth_append)
  next
    case False
    then have "i = n" using Suc.prems by simp
    then show ?thesis using Suc.prems unfolding tri_snoc
      by (simp add: nth_append length_tri del: upt_Suc)
  qed
qed

lemma pack_rows_ok:
  assumes "square n h"
  shows "list_all (\<lambda>i. i < n \<and> sym_row h tol i) rows \<Longrightarrow> k + length (tri h rows) \<le> length m \<Longrightarrow>
    pack_rows h tol rows (k, m) =
      Inr (k + length (tri h rows), take k m @ tri h rows @ drop (k + length (tri h rows)) m)"
proof (induction rows arbitrary: k m)
  case Nil
  then show ?case by (simp add: tri_def)
next
  case (Cons i rows)
  let ?r = "map (\<lambda>j. h ! i ! j) [0..<i + 1]"
  let ?m = "take k m @ ?r @ drop (k + (i + 1)) m"
  have i: "i < n" and s: "sym_row h tol i" using Cons.prems(1) by simp_all
  have len: "k + (i + 1) + length (tri h rows) \<le> length m"
    using Cons.prems(2) by (simp add: tri_Cons)
  have "list_all (\<lambda>j. j < n \<and> \<bar>h ! i ! j - h ! j ! i\<bar> < tol) [0..<i + 1]"
    using i s by (simp add: sym_row_def list_all_iff)
  then have row: "pack_row h tol i [0..<i + 1] (k, m) = Inr (k + (i + 1), ?m)"
    using pack_row_ok[OF assms i, of tol "[0..<i + 1]" k m] len by simp
  have lm: "length ?m = length m" using len by simp
  have rest: "pack_rows h tol rows (k + (i + 1), ?m) =
      Inr (k + (i + 1) + length (tri h rows),
           take (k + (i + 1)) ?m @ tri h rows @ drop (k + (i + 1) + length (tri h rows)) ?m)"
    using Cons.IH[of "k + (i + 1)" ?m] Cons.prems(1) len lm by simp
  have t: "take (k + (i + 1)) ?m = take k m @ ?r" using len by simp
  have d: "drop (k + (i + 1) + length (tri h rows)) ?m = drop (k + (i + 1) + length (tri h rows)) m"
    using len by (simp add: add_ac)
  show ?case
    unfolding pack_rows.simps row sum.case rest t d
    by (simp add: tri_Cons add_ac)
qed

lemma pack_rows_fail:
  assumes "square n h"
  shows "list_all (\<lambda>i. i < n) rows \<Longrightarrow> \<not> list_all (sym_row h tol) rows \<Longrightarrow>
    pack_rows h tol rows s = Inl AssertionError"
proof (induction rows arbitrary: s)
  case Nil
  then show ?case by simp
next
  case (Cons i rows)
  have i: "i < n" using Cons.prems(1) by simp
  have rng: "list_all (\<lambda>j. j < n) [0..<i + 1]" using i by (simp add: list_all_iff)
  show ?case
  proof (cases "sym_row h tol i")
    case False
    then have "pack_row h tol i [0..<i + 1] s = Inl AssertionError"
      using pack_row_fail[OF assms i rng] by (simp add: sym_row_def)
    then show ?thesis by simp
  next
    case True
    then have "list_all (\<lambda>j. j < n \<and> \<bar>h ! i ! j - h ! j ! i\<bar> < tol) [0..<i + 1]"
      using i by (simp add: sym_row_def list_all_iff)
    then obtain s' where "pack_row h tol i [0..<i + 1] s = Inr s'"
      using pack_row_succeeds[OF assms i] by blast
    moreover have "pack_rows h tol rows s' = Inl AssertionError"
      using Cons True by simp
    ultimately show ?thesis by simp
  qed
qed

lemma pack_h1e_ok: "square n h \<Longrightarrow> symmetric_within n h tol \<Longrightarrow> pack_h1e n h tol = Inr (tri h [0..<n])"
  using pack_rows_ok[of n h tol "[0..<n]" 0 "replicate (n * (n + 1) div 2) 0"]
  by (simp add: pack_h1e_def symmetric_within_def list_all_iff length_tri)

lemma pack_h1e_fail: "square n h \<Longrightarrow> \<not> symmetric_within n h tol \<Longrightarrow> pack_h1e n h tol = Inl AssertionError"
  using pack_rows_fail[of n h "[0..<n]" tol]
  by (simp add: pack_h1e_def symmetric_within_def list_all_iff)

lemma symmetric_within_iff:
  "symmetric_within n h tol \<longleftrightarrow> (\<forall>i<n. \<forall>j<n. \<bar>h ! i ! j - h ! j ! i\<bar> < tol)"
proof
  assume a: "symmetric_within n h tol"
  show "\<forall>i<n. \<forall>j<n. \<bar>h ! i ! j - h ! j ! i\<bar> < tol"
  proof (intro allI impI)
    fix i j assume "i < n" "j < n"
    show "\<bar>h ! i ! j - h ! j ! i\<bar> < tol"
    proof (cases "j \<le> i")
      case True
      then show ?thesis using a \<open>i < n\<close> by (simp add: symmetric_within_def sym_row_iff list_all_iff)
    next
      case False
      then have "\<bar>h ! j ! i - h ! i ! j\<bar> < tol"
        using a \<open>j < n\<close> by (simp add: symmetric_within_def sym_row_iff list_all_iff)
      then show ?thesis by (simp add: abs_minus_commute)
    qed
  qed
next
  assume "\<forall>i<n. \<forall>j<n. \<bar>h ! i ! j - h ! j ! i\<bar> < tol"
  then show "symmetric_within n h tol"
    by (simp add: symmetric_within_def sym_row_iff list_all_iff)
qed

lemma init_hamiltonian_fresh:
  "fcidump st = None \<Longrightarrow>
   init_hamiltonian swap_d2h pg n tw isym osym e_core h1e g2e tol st =
     (case build_fcidump n (n * 2) tw isym e_core h1e g2e tol of
        Inl e \<Rightarrow> (Raised e, st\<lparr>fcidump := Some Unpopulated\<rparr>)
      | Inr fd \<Rightarrow>
          (if supported_pg pg then Returned () else Raised AssertionError,
           st\<lparr>fcidump := Some fd, orb_sym := Some (map swap_d2h osym),
              n_physical_sites := Some n, n_sites := Some (n * 2),
              hamil := Some ((HamiltonianQC vacuum_qnum (new_qnum (n * 2) tw (swap_d2h isym)) n
                               (map swap_d2h osym) fd)\<lparr>seq_mode := Simple\<rparr>)\<rparr>))"
  by (simp add: init_hamiltonian_def Let_def split: sum.split)

lemma build_fcidump_ok:
  "square n h \<Longrightarrow> symmetric_within n h tol \<Longrightarrow>
   build_fcidump n n_elec tw isym e_core (Single h) (Single g) tol =
     Inr (initialize_su2 n n_elec tw isym e_core (zero_below tol (tri h [0..<n]))
            (zero_below tol (flatten g)))"
  by (simp add: build_fcidump_def pack_h1e_ok)

lemma build_fcidump_fail:
  "square n h \<Longrightarrow> \<not> symmetric_within n h tol \<Longrightarrow>
   build_fcidump n n_elec tw isym e_core (Single h) g2e tol = Inl AssertionError"
  by (simp add: build_fcidump_def pack_h1e_fail)

text \<open>
  C1. A one-electron matrix \<open>h\<close> of \<open>n\<close> by \<open>n\<close> entries, not a tuple, is passed to
  \<open>init_hamiltonian\<close> on an instance that has no integral store yet. If some pair
  \<open>i, j\<close> has \<open>\<bar>h[i,j] - h[j,i]\<bar> \<ge> tol\<close>, the call raises (an AssertionError, the
  driver's only exception for it) and leaves the store created but unpopulated. If no
  pair has, the symmetry check lets the call through: with an array for \<open>g2e\<close> and a
  supported point group it returns normally.
\<close>

theorem asymmetric_h1e_rejected:
  assumes "fcidump st = None" and "square n h"
  shows "((\<exists>i<n. \<exists>j<n. tol \<le> \<bar>h ! i ! j - h ! j ! i\<bar>) \<longrightarrow>
            init_hamiltonian swap_d2h pg n tw isym osym e_core (Single h) g2e tol st =
              (Raised AssertionError, st\<lparr>fcidump := Some Unpopulated\<rparr>)) \<and>
         (\<not> (\<exists>i<n. \<exists>j<n. tol \<le> \<bar>h ! i ! j - h ! j ! i\<bar>) \<longrightarrow> supported_pg pg \<longrightarrow>
            fst (init_hamiltonian swap_d2h pg n tw isym osym e_core (Single h) (Single g) tol st) =
              Returned ())"
proof (intro conjI impI)
  assume "\<exists>i<n. \<exists>j<n. tol \<le> \<bar>h ! i ! j - h ! j ! i\<bar>"
  then have "\<not> symmetric_within n h tol"
    by (auto simp: symmetric_within_iff not_less)
  then show "init_hamiltonian swap_d2h pg n tw isym osym e_core (Single h) g2e tol st =
      (Raised AssertionError, st\<lparr>fcidump := Some Unpopulated\<rparr>)"
    using assms by (simp add: init_hamiltonian_fresh build_fcidump_fail)
next
  assume "\<not> (\<exists>i<n. \<exists>j<n. tol \<le> \<bar>h ! i ! j - h ! j ! i\<bar>)" and "supported_pg pg"
  then have "symmetric_within n h tol"
    by (auto simp: symmetric_within_iff not_le)
  then show "fst (init_hamiltonian swap_d2h pg n tw isym osym e_core (Single h) (Single g) tol st) =
      Returned ()"
    using assms \<open>supported_pg pg\<close> by (simp add: init_hamiltonian_fresh build_fcidump_ok)
qed

theorem asymmetric_h1e_rejected_witness:
  "init_hamiltonian id ''d2h'' 2 0 1 [1, 1] 0 (Single skewed_h1e) (Single sample_g2e) (1 / 10)
     sample_instance =
     (Raised AssertionError, sample_instance\<lparr>fcidump := Some Unpopulated\<rparr>) \<and>
   fst (init_hamiltonian id ''d2h'' 2 0 1 [1, 1] 0 (Single sample_h1e) (Single sample_g2e) (1 / 10)
          sample_instance) = Returned ()"
proof -
  have f: "fcidump sample_instance = None" by (simp add: sample_instance_def)
  have s1: "square 2 skewed_h1e" by code_simp
  have s2: "square 2 sample_h1e" by code_simp
  have "\<not> symmetric_within 2 skewed_h1e (1 / 10)" by code_simp
  then have a: "\<exists>i<2. \<exists>j<2. 1 / 10 \<le> \<bar>skewed_h1e ! i ! j - skewed_h1e ! j ! i\<bar>"
    by (simp add: symmetric_within_iff not_less)
  have "symmetric_within 2 sample_h1e (1 / 10)" by code_simp
  then have b: "\<not> (\<exists>i<2. \<exists>j<2. 1 / 10 \<le> \<bar>sample_h1e ! i ! j - sample_h1e ! j ! i\<bar>)"
    by (simp add: symmetric_within_iff not_le)
  have p: "supported_pg ''d2h''" by code_simp
  have 1: "init_hamiltonian id ''d2h'' 2 0 1 [1, 1] 0 (Single skewed_h1e) (Single sample_g2e) (1 / 10)
      sample_instance = (Raised AssertionError, sample_instance\<lparr>fcidump := Some Unpopulated\<rparr>)"
    using asymmetric_h1e_rejected[OF f s1, where tol = "1 / 10"] a by blast
  have 2: "fst (init_hamiltonian id ''d2h'' 2 0 1 [1, 1] 0 (Single sample_h1e) (Single sample_g2e)
      (1 / 10) sample_instance) = Returned ()"
    using asymmetric_h1e_rejected[OF f s2, where tol = "1 / 10" and pg = "''d2h''"] b p by blast
  from 1 2 show ?thesis by (rule conjI)
qed

text \<open>
  C2. When \<open>init_hamiltonian\<close> accepts a symmetric \<open>n\<close> by \<open>n\<close> matrix \<open>h\<close>, the
  integral store receives a packed array of \<open>n (n + 1) / 2\<close> entries whose entry
  \<open>i (i + 1) / 2 + j\<close>, for \<open>j \<le> i < n\<close>, is \<open>h[i,j]\<close> when \<open>\<bar>h[i,j]\<bar> \<ge> tol\<close> and
  zero otherwise, and the flattened two-electron array with every entry below \<open>tol\<close> in
  absolute value set to zero and every other entry kept.
\<close>

theorem packed_integrals_zeroed:
  assumes "fcidump st = None" and "square n h"
    and "\<forall>i<n. \<forall>j<n. \<bar>h ! i ! j - h ! j ! i\<bar> < tol"
  shows "\<exists>fd. fcidump (snd (init_hamiltonian swap_d2h pg n tw isym osym e_core
                              (Single h) (Single g) tol st)) = Some (Populated fd) \<and>
           length (i_h1e fd) = n * (n + 1) div 2 \<and>
           (\<forall>i<n. \<forall>j\<le>i. i_h1e fd ! (i * (i + 1) div 2 + j) =
                              (if \<bar>h ! i ! j\<bar> < tol then 0 else h ! i ! j)) \<and>
           length (i_g2e fd) = length (flatten g) \<and>
           (\<forall>p<length (flatten g). i_g2e fd ! p =
                              (if \<bar>flatten g ! p\<bar> < tol then 0 else flatten g ! p))"
proof -
  have s: "symmetric_within n h tol" using assms(3) by (simp add: symmetric_within_iff)
  let ?fd = "\<lparr>i_n_sites = n, i_n_elec = n * 2, i_twos = tw, i_isym = isym, i_e_core = e_core,
              i_h1e = zero_below tol (tri h [0..<n]), i_g2e = zero_below tol (flatten g)\<rparr>"
  have "fcidump (snd (init_hamiltonian swap_d2h pg n tw isym osym e_core
                        (Single h) (Single g) tol st)) = Some (Populated ?fd)"
    using assms(1,2) s by (simp add: init_hamiltonian_fresh build_fcidump_ok initialize_su2_def)
  moreover have "length (i_h1e ?fd) = n * (n + 1) div 2"
    by (simp add: zero_below_def length_tri)
  moreover have "\<forall>i<n. \<forall>j\<le>i. i_h1e ?fd ! (i * (i + 1) div 2 + j) =
                              (if \<bar>h ! i ! j\<bar> < tol then 0 else h ! i ! j)"
  proof (intro allI impI)
    fix i j assume ij: "i < n" "j \<le> i"
    have "i * (i + 1) div 2 + j < Suc i * (Suc i + 1) div 2" using ij by simp
    also have "\<dots> \<le> n * (n + 1) div 2"
      using ij by (intro div_le_mono mult_le_mono) auto
    finally have "i * (i + 1) div 2 + j < length (tri h [0..<n])" by (simp add: length_tri)
    moreover have "tri h [0..<n] ! (i * (i + 1) div 2 + j) = h ! i ! j"
      using ij by (rule tri_nth)
    ultimately show "i_h1e ?fd ! (i * (i + 1) div 2 + j) = (if \<bar>h ! i ! j\<bar> < tol then 0 else h ! i ! j)"
      by (simp add: zero_below_def)
  qed
  moreover have "length (i_g2e ?fd) = length (flatten g)"
    by (simp add: zero_below_def)
  moreover have "\<forall>p<length (flatten g). i_g2e ?fd ! p =
                              (if \<bar>flatten g ! p\<bar> < tol then 0 else flatten g ! p)"
    by (simp add: zero_below_def)
  ultimately show ?thesis by blast
qed

theorem packed_integrals_zeroed_witness:
  "\<exists>fd. fcidump (snd (init_hamiltonian id ''d2h'' 2 0 1 [1, 1] 0
                        (Single sample_h1e) (Single sample_g2e) (1 / 10) sample_instance)) =
           Some (Populated fd) \<and>
         length (i_h1e fd) = 2 * (2 + 1) div 2 \<and>
         (\<forall>i<2. \<forall>j\<le>i. i_h1e fd ! (i * (i + 1) div 2 + j) =
                            (if \<bar>sample_h1e ! i ! j\<bar> < 1 / 10 then 0 else sample_h1e ! i ! j)) \<and>
         length (i_g2e fd) = length (flatten sample_g2e) \<and>
         (\<forall>p<length (flatten sample_g2e). i_g2e fd ! p =
                            (if \<bar>flatten sample_g2e ! p\<bar> < 1 / 10 then 0 else flatten sample_g2e ! p))"
proof -
  have f: "fcidump sample_instance = None" by (simp add: sample_instance_def)
  have s: "square 2 sample_h1e" by code_simp
  have "symmetric_within 2 sample_h1e (1 / 10)" by code_simp
  then have a: "\<forall>i<2. \<forall>j<2. \<bar>sample_h1e ! i ! j - sample_h1e ! j ! i\<bar> < 1 / 10"
    by (simp add: symmetric_within_iff)
  show ?thesis by (rule packed_integrals_zeroed[OF f s a])
qed

subsection \<open>Initialization of the Hamiltonian\<close>

lemma init_hamiltonian_fcidump_fresh:
  "fcidump st = None \<Longrightarrow>
   init_hamiltonian_fcidump swap_d2h read pg filename st =
     (case read filename of
        None \<Rightarrow> (Raised FormatError, st\<lparr>fcidump := Some Unpopulated\<rparr>)
      | Some f \<Rightarrow>
          (if supported_pg pg then Returned () else Raised AssertionError,
           st\<lparr>fcidump := Some (Loaded f), orb_sym := Some (map swap_d2h (i_orb_sym f)),
              n_physical_sites := Some (i_n_sites f), n_sites := Some (i_n_sites f * 2),
              hamil := Some ((HamiltonianQC vacuum_qnum
                               (new_qnum (i_n_sites f * 2) (i_twos f) (swap_d2h (i_isym f)))
                               (i_n_sites f) (map swap_d2h (i_orb_sym f)) (Loaded f))
                             \<lparr>seq_mode := Simple\<rparr>)\<rparr>))"
  by (simp add: init_hamiltonian_fcidump_def Let_def split: option.split)

lemma init_hamiltonian_unsupported:
  "\<not> supported_pg pg \<Longrightarrow>
   \<exists>e. fst (init_hamiltonian swap_d2h pg n tw isym osym e_core h1e g2e tol st) = Raised e"
  by (simp add: init_hamiltonian_def Let_def split: sum.split)

lemma init_hamiltonian_fcidump_unsupported:
  "\<not> supported_pg pg \<Longrightarrow>
   \<exists>e. fst (init_hamiltonian_fcidump swap_d2h read pg filename st) = Raised e"
  by (simp add: init_hamiltonian_fcidump_def Let_def split: option.split)

text \<open>
  C3, as the code has it. For a point group other than "d2h" and "c1" both
  initializations fail, whatever the instance and the other arguments. The check is the
  last statement of both: when it is what rejects the call, with an AssertionError, the
  integral store is populated already and the Hamiltonian is constructed and stored on
  the instance. For "d2h" and "c1" the check raises nothing and the call returns.
\<close>

theorem point_group_checked_last:
  "(\<not> supported_pg pg \<longrightarrow>
      (\<exists>e. fst (init_hamiltonian swap_d2h pg n tw isym osym e_core h1e g2e tol st) = Raised e) \<and>
      (\<exists>e. fst (init_hamiltonian_fcidump swap_d2h read pg filename st) = Raised e)) \<and>
   (fcidump st = None \<and> build_fcidump n (n * 2) tw isym e_core h1e g2e tol = Inr fd \<longrightarrow>
      (if supported_pg pg
       then fst (init_hamiltonian swap_d2h pg n tw isym osym e_core h1e g2e tol st) = Returned ()
       else fst (init_hamiltonian swap_d2h pg n tw isym osym e_core h1e g2e tol st) =
              Raised AssertionError \<and>
            fcidump (snd (init_hamiltonian swap_d2h pg n tw isym osym e_core h1e g2e tol st)) =
              Some fd \<and>
            hamil (snd (init_hamiltonian swap_d2h pg n tw isym osym e_core h1e g2e tol st)) \<noteq>
              None)) \<and>
   (fcidump st = None \<and> read filename = Some f \<longrightarrow>
      (if supported_pg pg
       then fst (init_hamiltonian_fcidump swap_d2h read pg filename st) = Returned ()
       else fst (init_hamiltonian_fcidump swap_d2h read pg filename st) = Raised AssertionError \<and>
            fcidump (snd (init_hamiltonian_fcidump swap_d2h read pg filename st)) =
              Some (Loaded f) \<and>
            hamil (snd (init_hamiltonian_fcidump swap_d2h read pg filename st)) \<noteq> None))"
proof (intro conjI impI)
  assume "\<not> supported_pg pg"
  then show "\<exists>e. fst (init_hamiltonian swap_d2h pg n tw isym osym e_core h1e g2e tol st) = Raised e"
    by (rule init_hamiltonian_unsupported)
next
  assume "\<not> supported_pg pg"
  then show "\<exists>e. fst (init_hamiltonian_fcidump swap_d2h read pg filename st) = Raised e"
    by (rule init_hamiltonian_fcidump_unsupported)
next
  assume "fcidump st = None \<and> build_fcidump n (n * 2) tw isym e_core h1e g2e tol = Inr fd"
  then show "if supported_pg pg
       then fst (init_hamiltonian swap_d2h pg n tw isym osym e_core h1e g2e tol st) = Returned ()
       else fst (init_hamiltonian swap_d2h pg n tw isym osym e_core h1e g2e tol st) =
              Raised AssertionError \<and>
            fcidump (snd (init_hamiltonian swap_d2h pg n tw isym osym e_core h1e g2e tol st)) =
              Some fd \<and>
            hamil (snd (init_hamiltonian swap_d2h pg n tw isym osym e_core h1e g2e tol st)) \<noteq>
              None"
    by (simp add: init_hamiltonian_fresh)
next
  assume "fcidump st = None \<and> read filename = Some f"
  then show "if supported_pg pg
       then fst (init_hamiltonian_fcidump swap_d2h read pg filename st) = Returned ()
       else fst (init_hamiltonian_fcidump swap_d2h read pg filename st) = Raised AssertionError \<and>
            fcidump (snd (init_hamiltonian_fcidump swap_d2h read pg filename st)) =
              Some (Loaded f) \<and>
            hamil (snd (init_hamiltonian_fcidump swap_d2h read pg filename st)) \<noteq> None"
    by (simp add: init_hamiltonian_fcidump_fresh)
qed

theorem point_group_checked_last_witness:
  "fst (init_hamiltonian id ''c2v'' 2 0 1 [1, 1] 0 (Single sample_h1e) (Single sample_g2e) (1 / 10)
          sample_instance) = Raised AssertionError \<and>
   hamil (snd (init_hamiltonian id ''c2v'' 2 0 1 [1, 1] 0 (Single sample_h1e) (Single sample_g2e)
                 (1 / 10) sample_instance)) \<noteq> None \<and>
   fst (init_hamiltonian_fcidump id sample_read ''c2v'' ''FCIDUMP'' sample_instance) =
     Raised AssertionError \<and>
   hamil (snd (init_hamiltonian_fcidump id sample_read ''c2v'' ''FCIDUMP'' sample_instance)) \<noteq> None \<and>
   fst (init_hamiltonian id ''c1'' 2 0 1 [1, 1] 0 (Single sample_h1e) (Single sample_g2e) (1 / 10)
          sample_instance) = Returned () \<and>
   fst (init_hamiltonian_fcidump id sample_read ''c1'' ''FCIDUMP'' sample_instance) = Returned ()"
proof -
  have f: "fcidump sample_instance = None" by (simp add: sample_instance_def)
  have "square 2 sample_h1e" and "symmetric_within 2 sample_h1e (1 / 10)" by code_simp+
  then obtain fd where
    b: "build_fcidump 2 (2 * 2) 0 1 0 (Single sample_h1e) (Single sample_g2e) (1 / 10) = Inr fd"
    using build_fcidump_ok by blast
  have r: "sample_read ''FCIDUMP'' = Some sample_file" by (simp add: sample_read_def)
  have n: "\<not> supported_pg ''c2v''" by code_simp
  have y: "supported_pg ''c1''" by code_simp
  note bad = point_group_checked_last[where pg = "''c2v''" and st = sample_instance and fd = fd
      and read = sample_read and filename = "''FCIDUMP''" and f = sample_file and n = 2
      and swap_d2h = id]
  note good = point_group_checked_last[where pg = "''c1''" and st = sample_instance and fd = fd
      and read = sample_read and filename = "''FCIDUMP''" and f = sample_file and n = 2
      and swap_d2h = id]
  show ?thesis using bad good f b r n y by simp
qed

text \<open>
  A call with the point group "c2v": when the check rejects it, the Hamiltonian is on the
  instance and the integral store is populated.
\<close>

theorem point_group_rejection_follows_construction:
  "fst (init_hamiltonian id ''c2v'' 1 0 1 [1] 0 (Single [[1]]) (Single (Scalar 1)) (1 / 10)
          sample_instance) = Raised AssertionError \<and>
   hamil (snd (init_hamiltonian id ''c2v'' 1 0 1 [1] 0 (Single [[1]]) (Single (Scalar 1)) (1 / 10)
                 sample_instance)) \<noteq> None \<and>
   fcidump (snd (init_hamiltonian id ''c2v'' 1 0 1 [1] 0 (Single [[1]]) (Single (Scalar 1)) (1 / 10)
                   sample_instance)) \<noteq> Some Unpopulated"
  by code_simp

text \<open>
  C4, as the code has it. \<open>init_hamiltonian\<close> takes no electron count. On an instance
  without a store, whenever the arrays are accepted, the integral store on the instance
  holds the electron count \<open>2 n\<close>, twice the number of sites, and the target of the
  Hamiltonian is \<open>(2 n, twos, swap_d2h isym)\<close>; and whenever the call leaves a populated
  store, its electron count is \<open>2 n\<close>. The file-based initialization keeps the file's
  store and builds the target from twice the file's site count, the file's spin and the
  swapped symmetry of the file.
\<close>

theorem target_counts_two_per_site:
  "(fcidump st = None \<and> build_fcidump n (n * 2) tw isym e_core h1e g2e tol = Inr fd \<longrightarrow>
      (\<exists>ig. fcidump (snd (init_hamiltonian swap_d2h pg n tw isym osym e_core h1e g2e tol st)) =
              Some (Populated ig) \<and>
            i_n_elec ig = 2 * n \<and> i_n_sites ig = n \<and> i_twos ig = tw \<and> i_isym ig = isym) \<and>
      map_option target (hamil (snd (init_hamiltonian swap_d2h pg n tw isym osym e_core h1e g2e tol st))) =
        Some \<lparr>q_n = 2 * n, q_twos = tw, q_pg = swap_d2h isym\<rparr>) \<and>
   (fcidump st = None \<and>
    fcidump (snd (init_hamiltonian swap_d2h pg n tw isym osym e_core h1e g2e tol st)) =
      Some (Populated ig') \<longrightarrow>
      i_n_elec ig' = 2 * n) \<and>
   (fcidump st = None \<and> read filename = Some f \<longrightarrow>
      fcidump (snd (init_hamiltonian_fcidump swap_d2h read pg filename st)) = Some (Loaded f) \<and>
      map_option target (hamil (snd (init_hamiltonian_fcidump swap_d2h read pg filename st))) =
        Some \<lparr>q_n = 2 * i_n_sites f, q_twos = i_twos f, q_pg = swap_d2h (i_isym f)\<rparr>)"
proof (intro conjI impI)
  assume a: "fcidump st = None \<and> build_fcidump n (n * 2) tw isym e_core h1e g2e tol = Inr fd"
  then obtain ig where ig: "fd = Populated ig" "i_n_elec ig = 2 * n" "i_n_sites ig = n"
      "i_twos ig = tw" "i_isym ig = isym"
    by (auto simp: build_fcidump_def initialize_su2_def split: py_arg.splits sum.splits)
  have "fcidump (snd (init_hamiltonian swap_d2h pg n tw isym osym e_core h1e g2e tol st)) =
      Some (Populated ig)"
    using a ig(1) by (simp add: init_hamiltonian_fresh)
  with ig show "\<exists>ig. fcidump (snd (init_hamiltonian swap_d2h pg n tw isym osym e_core h1e g2e tol st)) =
              Some (Populated ig) \<and>
            i_n_elec ig = 2 * n \<and> i_n_sites ig = n \<and> i_twos ig = tw \<and> i_isym ig = isym"
    by blast
  show "map_option target (hamil (snd (init_hamiltonian swap_d2h pg n tw isym osym e_core h1e g2e tol st))) =
      Some \<lparr>q_n = 2 * n, q_twos = tw, q_pg = swap_d2h isym\<rparr>"
    using a by (simp add: init_hamiltonian_fresh HamiltonianQC_def new_qnum_def)
next
  assume "fcidump st = None \<and>
    fcidump (snd (init_hamiltonian swap_d2h pg n tw isym osym e_core h1e g2e tol st)) =
      Some (Populated ig')"
  then show "i_n_elec ig' = 2 * n"
    by (auto simp: init_hamiltonian_fresh build_fcidump_def initialize_su2_def
        split: py_arg.splits sum.splits)
next
  assume a: "fcidump st = None \<and> read filename = Some f"
  then show "fcidump (snd (init_hamiltonian_fcidump swap_d2h read pg filename st)) = Some (Loaded f)"
    by (simp add: init_hamiltonian_fcidump_fresh)
  show "map_option target (hamil (snd (init_hamiltonian_fcidump swap_d2h read pg filename st))) =
      Some \<lparr>q_n = 2 * i_n_sites f, q_twos = i_twos f, q_pg = swap_d2h (i_isym f)\<rparr>"
    using a by (simp add: init_hamiltonian_fcidump_fresh HamiltonianQC_def new_qnum_def)
qed

theorem target_counts_two_per_site_witness:
  "(\<exists>ig. fcidump (snd (init_hamiltonian sample_swap ''d2h'' 2 0 1 [1, 1] 0 (Single sample_h1e)
                         (Single sample_g2e) (1 / 10) sample_instance)) = Some (Populated ig) \<and>
         i_n_elec ig = 2 * 2 \<and> i_n_sites ig = 2 \<and> i_twos ig = 0 \<and> i_isym ig = 1) \<and>
   map_option target (hamil (snd (init_hamiltonian sample_swap ''d2h'' 2 0 1 [1, 1] 0
                                    (Single sample_h1e) (Single sample_g2e) (1 / 10)
                                    sample_instance))) =
     Some \<lparr>q_n = 2 * 2, q_twos = 0, q_pg = sample_swap 1\<rparr> \<and>
   fcidump (snd (init_hamiltonian_fcidump sample_swap sample_read ''d2h'' ''FCIDUMP''
                   sample_instance)) = Some (Loaded sample_file) \<and>
   map_option target (hamil (snd (init_hamiltonian_fcidump sample_swap sample_read ''d2h''
                                    ''FCIDUMP'' sample_instance))) =
     Some \<lparr>q_n = 2 * i_n_sites sample_file, q_twos = i_twos sample_file,
           q_pg = sample_swap (i_isym sample_file)\<rparr>"
proof -
  have f: "fcidump sample_instance = None" by (simp add: sample_instance_def)
  have "square 2 sample_h1e" and "symmetric_within 2 sample_h1e (1 / 10)" by code_simp+
  then obtain fd where
    b: "build_fcidump 2 (2 * 2) 0 1 0 (Single sample_h1e) (Single sample_g2e) (1 / 10) = Inr fd"
    using build_fcidump_ok by blast
  have r: "sample_read ''FCIDUMP'' = Some sample_file" by (simp add: sample_read_def)
  note t = target_counts_two_per_site[where st = sample_instance and fd = fd and n = 2
      and read = sample_read and filename = "''FCIDUMP''" and f = sample_file
      and swap_d2h = sample_swap and tw = 0 and isym = 1 and pg = "''d2h''" and osym = "[1, 1]"]
  show ?thesis using t f b r by blast
qed

text \<open>
  A call for two orbitals, as for a molecule with two electrons, spin zero and symmetry
  one: the target holds four particles, and it is not the \<open>spec_target 2 0 1\<close> of a
  caller's two electrons.
\<close>

theorem target_is_not_a_supplied_count:
  "map_option (q_n \<circ> target)
     (hamil (snd (init_hamiltonian sample_swap ''d2h'' 2 0 1 [1, 1] 0 (Single sample_h1e)
                    (Single sample_g2e) (1 / 10) sample_instance))) = Some 4 \<and>
   map_option target
     (hamil (snd (init_hamiltonian sample_swap ''d2h'' 2 0 1 [1, 1] 0 (Single sample_h1e)
                    (Single sample_g2e) (1 / 10) sample_instance))) \<noteq> Some (spec_target 2 0 1)"
  by code_simp

text \<open>
  C9. Once an instance has an integral store, every initialization call on it, from a
  file or from arrays, raises an AssertionError and leaves the instance exactly as it
  was; and every initialization call, whatever its outcome, leaves the instance with an
  integral store. So after a first call no second call succeeds or changes anything.
\<close>

theorem second_initialization_rejected:
  "(fcidump st \<noteq> None \<longrightarrow>
      init_hamiltonian swap_d2h pg n tw isym osym e_core h1e g2e tol st = (Raised AssertionError, st) \<and>
      init_hamiltonian_fcidump swap_d2h read pg filename st = (Raised AssertionError, st)) \<and>
   fcidump (snd (init_hamiltonian swap_d2h pg n tw isym osym e_core h1e g2e tol st)) \<noteq> None \<and>
   fcidump (snd (init_hamiltonian_fcidump swap_d2h read pg filename st)) \<noteq> None"
  by (auto simp: init_hamiltonian_def init_hamiltonian_fcidump_def Let_def
      split: sum.splits option.splits)

theorem second_initialization_rejected_witness:
  "init_hamiltonian id ''d2h'' 2 0 1 [1, 1] 0 (Single sample_h1e) (Single sample_g2e) (1 / 10)
     sample_ready = (Raised AssertionError, sample_ready) \<and>
   init_hamiltonian_fcidump id sample_read ''d2h'' ''FCIDUMP'' sample_ready =
     (Raised AssertionError, sample_ready)"
proof -
  have "fcidump sample_ready \<noteq> None"
    unfolding sample_ready_def using second_initialization_rejected by blast
  then show ?thesis using second_initialization_rejected by blast
qed

subsection \<open>Evolution, memory and the density matrix\<close>

text \<open>
  C5. On an initialized instance, with a non-empty bond-dimension schedule: a
  continued evolution (\<open>cont=True\<close>) loads the state stored under "FINAL" and hands it to
  the solver with the scratch directory untouched, nothing being saved before the
  evolution; a fresh evolution (\<open>cont=False\<close>) loads the state stored under "INIT" and
  saves it under "FINAL" before the solver runs. In both cases the solver works under
  the tag "FINAL", and the evolved state's metadata are saved under "FINAL" once it
  has returned.
\<close>

theorem evolution_tags:
  assumes "hamil st = Some h" and "n_physical_sites st = Some np" and "bond_dims \<noteq> []"
  shows "(load_mps ''FINAL'' (disk w) = Inr m \<longrightarrow>
            prepare_mps True (disk w) = Inr (''FINAL'', m, disk w) \<and>
            imaginary_time_evolution te_solve n_steps beta_step mu' bond_dims te_method n_sub_sweeps True st w =
              (Returned (),
               st\<lparr>hamil := Some (h\<lparr>mu := mu'\<rparr>), bond_dim := Some (last bond_dims)\<rparr>,
               w\<lparr>disk := (snd (te_solve (h\<lparr>mu := mu'\<rparr>) ''FINAL'' m bond_dims te_method n_sub_sweeps
                                  n_steps beta_step (disk w)))
                          ((MPSData, ''FINAL'') \<mapsto>
                             data (fst (te_solve (h\<lparr>mu := mu'\<rparr>) ''FINAL'' m bond_dims te_method
                                          n_sub_sweeps n_steps beta_step (disk w))))\<rparr>)) \<and>
         (load_mps ''INIT'' (disk w) = Inr m \<longrightarrow>
            prepare_mps False (disk w) =
              Inr (''FINAL'', m, (disk w)((InfoMutable, ''FINAL'') \<mapsto> info_dims m,
                                          (MPSMutable, ''FINAL'') \<mapsto> tensors m)) \<and>
            imaginary_time_evolution te_solve n_steps beta_step mu' bond_dims te_method n_sub_sweeps False st w =
              (Returned (),
               st\<lparr>hamil := Some (h\<lparr>mu := mu'\<rparr>), bond_dim := Some (last bond_dims)\<rparr>,
               w\<lparr>disk := (snd (te_solve (h\<lparr>mu := mu'\<rparr>) ''FINAL'' m bond_dims te_method n_sub_sweeps
                                  n_steps beta_step
                                  ((disk w)((InfoMutable, ''FINAL'') \<mapsto> info_dims m,
                                            (MPSMutable, ''FINAL'') \<mapsto> tensors m))))
                          ((MPSData, ''FINAL'') \<mapsto>
                             data (fst (te_solve (h\<lparr>mu := mu'\<rparr>) ''FINAL'' m bond_dims te_method
                                          n_sub_sweeps n_steps beta_step
                                          ((disk w)((InfoMutable, ''FINAL'') \<mapsto> info_dims m,
                                                    (MPSMutable, ''FINAL'') \<mapsto> tensors m)))))\<rparr>))"
  using assms by (simp add: imaginary_time_evolution_def prepare_mps_def Let_def)

theorem evolution_tags_witness:
  "prepare_mps True (disk sample_world) =
     Inr (''FINAL'', \<lparr>info_dims = 20, tensors = 22, data = 21\<rparr>, disk sample_world) \<and>
   fst (imaginary_time_evolution sample_solve 1 (1 / 10) (- 1) [1000] RK4 6 True sample_ready
          sample_world) = Returned () \<and>
   disk (snd (snd (imaginary_time_evolution sample_solve 1 (1 / 10) (- 1) [1000] RK4 6 True
                     sample_ready sample_world))) (MPSData, ''FINAL'') = Some 121 \<and>
   disk (snd (snd (imaginary_time_evolution sample_solve 1 (1 / 10) (- 1) [1000] RK4 6 False
                     sample_ready sample_world))) (MPSData, ''FINAL'') = Some 111 \<and>
   disk (snd (snd (imaginary_time_evolution sample_solve 1 (1 / 10) (- 1) [1000] RK4 6 False
                     sample_ready sample_world))) (InfoMutable, ''FINAL'') = Some 10"
proof -
  have h: "hamil sample_ready = Some sample_hamil" by code_simp
  have n: "n_physical_sites sample_ready = Some 2" by code_simp
  have b: "[1000] \<noteq> ([] :: nat list)" by simp
  have lf: "load_mps ''FINAL'' (disk sample_world) = Inr \<lparr>info_dims = 20, tensors = 22, data = 21\<rparr>"
    by (simp add: load_mps_def sample_world_def sample_disk_def)
  have li: "load_mps ''INIT'' (disk sample_world) = Inr \<lparr>info_dims = 10, tensors = 12, data = 11\<rparr>"
    by (simp add: load_mps_def sample_world_def sample_disk_def)
  note e = evolution_tags[OF h n b, where w = sample_world and te_solve = sample_solve
      and n_steps = 1 and beta_step = "1 / 10" and mu' = "- 1" and te_method = RK4 and n_sub_sweeps = 6]
  note c = e[where m = "\<lparr>info_dims = 20, tensors = 22, data = 21\<rparr>", THEN conjunct1, rule_format, OF lf]
  note r = e[where m = "\<lparr>info_dims = 10, tensors = 12, data = 11\<rparr>", THEN conjunct2, rule_format, OF li]
  show ?thesis
    unfolding c[THEN conjunct1] c[THEN conjunct2] r[THEN conjunct2]
    by (simp add: sample_solve_def)
qed

text \<open>
  The constructor calls \<open>Random.rand_seed\<close> with the literal \<open>0\<close>, whatever its
  arguments; the generator it leaves is what the library makes of that seed.
\<close>

lemma constructor_seed_argument:
  "rng (snd (FTDMRG_init rand_seed True scratch memory omp_threads verb w)) = rand_seed 0 (rng w)"
  by (simp add: FTDMRG_init_def)

text \<open>
  C7. For every memory budget \<open>m\<close>, the constructor (with \<open>su2\<close> true) allocates the pool
  with an index segment of \<open>int(m * 0.1)\<close> and a data segment of \<open>int(m * 0.9)\<close> in the
  scratch directory. Generating the initial state, evolving and extracting the density
  matrix leave the pool as it is (the two initializations do not reach the process-wide
  state at all); \<open>__del__\<close> releases it.
\<close>

theorem pool_split_and_lifetime:
  "pool (snd (FTDMRG_init rand_seed True scratch memory omp_threads verb w)) =
     Some \<lparr>isize = py_int (memory * (1 / 10)), dsize = py_int (memory * (9 / 10)),
           save_dir = scratch\<rparr> \<and>
   pool (snd (snd (generate_initial_mps thermal_info thermal_mps bdim st w))) = pool w \<and>
   pool (snd (snd (imaginary_time_evolution te_solve n_steps beta_step mu' bond_dims te_method
                     n_sub_sweeps cont st w))) = pool w \<and>
   pool (snd (snd (get_one_pdm expect_1pdm ridx st w))) = pool w \<and>
   pool (FTDMRG_del st w) = None"
  by (simp add: FTDMRG_init_def generate_initial_mps_def imaginary_time_evolution_def
      get_one_pdm_def FTDMRG_del_def Let_def split: option.split sum.split prod.split)

theorem pool_split_and_lifetime_witness:
  "pool (snd (FTDMRG_init sample_seed True ''./nodex'' 1000000000 2 2 sample_world)) =
     Some \<lparr>isize = 100000000, dsize = 900000000, save_dir = ''./nodex''\<rparr> \<and>
   pool (FTDMRG_del sample_ready sample_world) = None"
proof -
  note p = pool_split_and_lifetime[where rand_seed = sample_seed
      and scratch = "''./nodex''" and memory = 1000000000 and omp_threads = 2 and verb = 2
      and w = sample_world and st = sample_ready]
  have "py_int (1000000000 * (1 / 10)) = 100000000" "py_int (1000000000 * (9 / 10)) = 900000000"
    by (simp_all add: py_int_def)
  with p show ?thesis by simp
qed

text \<open>
  C8, as the code has it. \<open>get_one_pdm\<close> sets the chemical potential of the Hamiltonian
  to zero before anything else. Whatever value an earlier evolution left on the
  Hamiltonian, the call behaves as it does with zero, for every routine of the library
  that builds and contracts the operator: same outcome, same instance and same scratch
  directory afterwards. When the attributes and the state under "FINAL" are there, that
  routine receives the Hamiltonian with chemical potential zero, and the result is the
  halved matrix it returns, twice; the Hamiltonian of the instance has chemical
  potential zero afterwards. The state under "FINAL" is read as the evolution left it.
\<close>

theorem one_pdm_ignores_mu:
  "get_one_pdm expect_1pdm ridx (st\<lparr>hamil := Some (h\<lparr>mu := m\<rparr>)\<rparr>) w =
     get_one_pdm expect_1pdm ridx (st\<lparr>hamil := Some (h\<lparr>mu := 0\<rparr>)\<rparr>) w \<and>
   (hamil st = Some h \<longrightarrow>
      hamil (fst (snd (get_one_pdm expect_1pdm ridx st w))) = Some (h\<lparr>mu := 0\<rparr>)) \<and>
   (hamil st = Some h \<and> n_physical_sites st = Some np \<and> bond_dim st = Some bd \<and>
    disk w (MPSData, ''FINAL'') = Some md \<longrightarrow>
      get_one_pdm expect_1pdm None st w =
        (Returned [map (map (\<lambda>x. x / 2)) (fst (expect_1pdm (h\<lparr>mu := 0\<rparr>) md bd np (disk w))),
                   map (map (\<lambda>x. x / 2)) (fst (expect_1pdm (h\<lparr>mu := 0\<rparr>) md bd np (disk w)))],
         st\<lparr>hamil := Some (h\<lparr>mu := 0\<rparr>)\<rparr>,
         w\<lparr>disk := snd (expect_1pdm (h\<lparr>mu := 0\<rparr>) md bd np (disk w))\<rparr>))"
  by (simp add: get_one_pdm_def Let_def split: option.split sum.split)

theorem one_pdm_ignores_mu_witness:
  "hamil sample_evolved = Some (sample_hamil\<lparr>mu := - 1\<rparr>) \<and>
   bond_dim sample_evolved = Some 1000 \<and>
   get_one_pdm sample_expect (Some [1, 0]) sample_evolved sample_evolved_world =
     get_one_pdm sample_expect (Some [1, 0])
       (sample_evolved\<lparr>hamil := Some (sample_hamil\<lparr>mu := 0\<rparr>)\<rparr>) sample_evolved_world \<and>
   fst (get_one_pdm sample_expect None sample_evolved sample_evolved_world) =
     Returned [[[1 / 2, 1], [3 / 2, 2]], [[1 / 2, 1], [3 / 2, 2]]] \<and>
   hamil (fst (snd (get_one_pdm sample_expect (Some [1, 0]) sample_evolved sample_evolved_world))) =
     Some (sample_hamil\<lparr>mu := 0\<rparr>)"
proof -
  have h: "hamil sample_evolved = Some (sample_hamil\<lparr>mu := - 1\<rparr>)" by code_simp
  have b: "bond_dim sample_evolved = Some 1000" by code_simp
  have n: "n_physical_sites sample_evolved = Some 2" by code_simp
  have d: "disk sample_evolved_world (MPSData, ''FINAL'') = Some 111" by code_simp
  have e: "sample_evolved = sample_evolved\<lparr>hamil := Some (sample_hamil\<lparr>mu := - 1\<rparr>)\<rparr>"
    using h by (cases sample_evolved) simp
  note o = one_pdm_ignores_mu[where st = sample_evolved and h = "sample_hamil\<lparr>mu := - 1\<rparr>"
      and expect_1pdm = sample_expect and w = sample_evolved_world and np = 2 and bd = 1000
      and md = 111]
  have 1: "get_one_pdm sample_expect (Some [1, 0]) sample_evolved sample_evolved_world =
     get_one_pdm sample_expect (Some [1, 0])
       (sample_evolved\<lparr>hamil := Some (sample_hamil\<lparr>mu := 0\<rparr>)\<rparr>) sample_evolved_world"
    using o[where ridx = "Some [1, 0]" and m = "- 1", THEN conjunct1] e by simp
  have 2: "hamil (fst (snd (get_one_pdm sample_expect (Some [1, 0]) sample_evolved
      sample_evolved_world))) = Some (sample_hamil\<lparr>mu := 0\<rparr>)"
    using o[where ridx = "Some [1, 0]", THEN conjunct2, THEN conjunct1] h by simp
  have 3: "fst (get_one_pdm sample_expect None sample_evolved sample_evolved_world) =
     Returned [[[1 / 2, 1], [3 / 2, 2]], [[1 / 2, 1], [3 / 2, 2]]]"
    using o[THEN conjunct2, THEN conjunct2] h b n d by (simp add: sample_expect_def)
  from h b 1 3 2 show ?thesis by blast
qed

text \<open>
  The density matrix itself is not independent of the chemical potential of the
  evolution before it. With a solver whose evolved state depends on the chemical
  potential and an expectation routine that reads the state, one evolution step from the
  same initial state followed by the extraction gives one matrix for chemical potential
  \<open>0\<close> and another for \<open>- 1\<close>.
\<close>

theorem one_pdm_depends_on_evolution_mu:
  "fst (get_one_pdm state_expect None
          (fst (snd (imaginary_time_evolution shifted_solve 1 (1 / 10) 0 [1000] RK4 6 False
                       sample_ready thermal_world)))
          (snd (snd (imaginary_time_evolution shifted_solve 1 (1 / 10) 0 [1000] RK4 6 False
                       sample_ready thermal_world)))) =
     Returned [[[1 / 2]], [[1 / 2]]] \<and>
   fst (get_one_pdm state_expect None
          (fst (snd (imaginary_time_evolution shifted_solve 1 (1 / 10) (- 1) [1000] RK4 6 False
                       sample_ready thermal_world)))
          (snd (snd (imaginary_time_evolution shifted_solve 1 (1 / 10) (- 1) [1000] RK4 6 False
                       sample_ready thermal_world)))) =
     Returned [[[11 / 20]], [[11 / 20]]]"
  by code_simp

subsection \<open>Reordering the density matrix\<close>

lemma ncols_square: "square n dm \<Longrightarrow> ncols dm = n"
  by (cases dm) (auto simp: square_def ncols_def)

lemma square_table: "square n (map (\<lambda>i. map (f i) [0..<n]) [0..<n])"
  by (simp add: square_def list_all_iff)

lemma table_of_square: "square n dm \<Longrightarrow> map (\<lambda>i. map (\<lambda>j. dm ! i ! j) [0..<n]) [0..<n] = dm"
  by (rule nth_equalityI) (auto simp: square_def list_all_length intro: nth_equalityI)

lemma fancy_index_in_range:
  "list_all (\<lambda>r. 0 \<le> r \<and> r < int (length xs)) p \<Longrightarrow>
   fancy_index xs p = Inr (map (\<lambda>r. xs ! nat r) p)"
  by (auto simp: fancy_index_def Let_def list_all_iff)

lemma fancy_cols_in_range:
  "list_all (\<lambda>r. 0 \<le> r \<and> r < int m) p \<Longrightarrow>
   fancy_cols m x p = Inr (map (\<lambda>row. map (\<lambda>r. row ! nat r) p) x)"
  by (auto simp: fancy_cols_def list_all_iff)

lemma reorder_square:
  assumes sq: "square n dm" and len: "length p = n"
    and rng: "list_all (\<lambda>r. 0 \<le> r \<and> r < int n) p"
  shows "reorder p dm = Inr (map (\<lambda>i. map (\<lambda>j. dm ! nat (p ! i) ! nat (p ! j)) [0..<n]) [0..<n])"
proof -
  let ?x = "map (\<lambda>row. map (\<lambda>r. row ! nat r) p) (map (\<lambda>r. dm ! nat r) p)"
  have n: "length dm = n" using sq by (simp add: square_def)
  have fi: "fancy_index dm p = Inr (map (\<lambda>r. dm ! nat r) p)"
    using rng n by (simp add: fancy_index_in_range)
  have fc: "fancy_cols (ncols dm) (map (\<lambda>r. dm ! nat r) p) p = Inr ?x"
    using rng by (simp add: fancy_cols_in_range ncols_square[OF sq])
  have lx: "length ?x = n" using len by simp
  have cx: "ncols ?x = n" using len by (cases p) (auto simp: ncols_def)
  have "assign_all dm ?x =
      Inr (map (\<lambda>i. map (\<lambda>j. ?x ! (if n = 1 then 0 else i) ! (if n = 1 then 0 else j)) [0..<n]) [0..<n])"
    unfolding assign_all_def Let_def lx cx ncols_square[OF sq] n by simp
  also have "map (\<lambda>i. map (\<lambda>j. ?x ! (if n = 1 then 0 else i) ! (if n = 1 then 0 else j)) [0..<n]) [0..<n] =
      map (\<lambda>i. map (\<lambda>j. dm ! nat (p ! i) ! nat (p ! j)) [0..<n]) [0..<n]"
    using len by (intro map_cong refl) auto
  finally show ?thesis by (simp add: reorder_def fi fc)
qed

lemma index_of_member: "x \<in> set xs \<Longrightarrow> index_of xs x < length xs \<and> xs ! index_of xs x = x"
  by (induction xs) (auto simp: index_of_def)

lemma is_perm_set:
  assumes "is_perm n p"
  shows "set p = int ` {0..<n}"
proof (rule card_subset_eq)
  show "finite (int ` {0..<n})" by simp
  show "set p \<subseteq> int ` {0..<n}"
  proof
    fix r assume "r \<in> set p"
    then have "0 \<le> r" "r < int n" using assms by (auto simp: is_perm_def list_all_iff)
    then have "r = int (nat r)" "nat r \<in> {0..<n}" by auto
    then show "r \<in> int ` {0..<n}" by blast
  qed
  have "card (set p) = n" using assms by (simp add: is_perm_def distinct_card)
  moreover have "card (int ` {0..<n}) = n" by (simp add: card_image)
  ultimately show "card (set p) = card (int ` {0..<n})" by simp
qed

lemma inverse_perm_nth:
  assumes "is_perm n p" and "i < n"
  shows "inverse_perm p ! i = int (index_of p (int i))" and "index_of p (int i) < n"
    and "p ! index_of p (int i) = int i"
proof -
  have len: "length p = n" using assms(1) by (simp add: is_perm_def)
  have "int i \<in> set p" using assms by (simp add: is_perm_set)
  then have "index_of p (int i) < length p \<and> p ! index_of p (int i) = int i"
    by (rule index_of_member)
  then show "index_of p (int i) < n" and "p ! index_of p (int i) = int i" using len by simp_all
  show "inverse_perm p ! i = int (index_of p (int i))"
    using assms(2) len by (simp add: inverse_perm_def)
qed

lemma inverse_perm_range:
  assumes "is_perm n p"
  shows "length (inverse_perm p) = n"
    and "list_all (\<lambda>r. 0 \<le> r \<and> r < int n) (inverse_perm p)"
proof -
  show l: "length (inverse_perm p) = n" using assms by (simp add: inverse_perm_def is_perm_def)
  show "list_all (\<lambda>r. 0 \<le> r \<and> r < int n) (inverse_perm p)"
    unfolding list_all_length l using inverse_perm_nth[OF assms] by simp
qed

text \<open>
  C6. For every \<open>n\<close> by \<open>n\<close> matrix and every permutation \<open>ridx\<close> of \<open>0, ..., n - 1\<close>,
  the reorder step of \<open>get_one_pdm\<close> with \<open>ridx\<close> succeeds, and the reorder step with the
  inverse permutation applied to its result gives back exactly the original matrix.
\<close>

theorem reorder_round_trip:
  assumes "square n dm" and "is_perm n ridx"
  shows "\<exists>dm'. reorder ridx dm = Inr dm' \<and> reorder (inverse_perm ridx) dm' = Inr dm"
proof -
  let ?q = "inverse_perm ridx"
  let ?dm' = "map (\<lambda>i. map (\<lambda>j. dm ! nat (ridx ! i) ! nat (ridx ! j)) [0..<n]) [0..<n]"
  have p: "length ridx = n" "list_all (\<lambda>r. 0 \<le> r \<and> r < int n) ridx"
    using assms(2) by (simp_all add: is_perm_def)
  have fwd: "reorder ridx dm = Inr ?dm'"
    using assms(1) p by (rule reorder_square)
  have "reorder ?q ?dm' = Inr (map (\<lambda>i. map (\<lambda>j. ?dm' ! nat (?q ! i) ! nat (?q ! j)) [0..<n]) [0..<n])"
    using square_table inverse_perm_range[OF assms(2)] by (rule reorder_square)
  also have "map (\<lambda>i. map (\<lambda>j. ?dm' ! nat (?q ! i) ! nat (?q ! j)) [0..<n]) [0..<n] =
      map (\<lambda>i. map (\<lambda>j. dm ! i ! j) [0..<n]) [0..<n]"
  proof (intro map_cong refl)
    fix i j assume "i \<in> set [0..<n]" "j \<in> set [0..<n]"
    then have ij: "i < n" "j < n" by simp_all
    show "?dm' ! nat (?q ! i) ! nat (?q ! j) = dm ! i ! j"
      using inverse_perm_nth[OF assms(2) ij(1)] inverse_perm_nth[OF assms(2) ij(2)] by simp
  qed
  also have "\<dots> = dm" using assms(1) by (rule table_of_square)
  finally have "reorder ?q ?dm' = Inr dm" .
  with fwd show ?thesis by blast
qed

theorem reorder_round_trip_witness:
  "square 3 sample_dm \<and> is_perm 3 [2, 0, 1] \<and>
   (\<exists>dm'. reorder [2, 0, 1] sample_dm = Inr dm' \<and>
           reorder (inverse_perm [2, 0, 1]) dm' = Inr sample_dm)"
proof -
  have s: "square 3 sample_dm" by code_simp
  have p: "is_perm 3 [2, 0, 1]" by code_simp
  from s p reorder_round_trip[OF s p] show ?thesis by blast
qed

end
